theory Spec2Isabelle
  imports Main
begin

section \<open>Python values and exceptions\<close>

text \<open>
  The exceptions the two modules can raise or meet. A subclass instance is identified with
  the class an \<^verbatim>\<open>except\<close> clause of the source tests for (\<^verbatim>\<open>ModuleNotFoundError\<close> with
  \<^verbatim>\<open>ImportError\<close>, croniter's \<^verbatim>\<open>CroniterBadCronError\<close> with \<^verbatim>\<open>ValueError\<close>).
  \<^verbatim>\<open>KeyboardInterrupt\<close>, \<^verbatim>\<open>SystemExit\<close> and \<^verbatim>\<open>GeneratorExit\<close> derive from
  \<^verbatim>\<open>BaseException\<close> only; every other class derives from \<^verbatim>\<open>Exception\<close>.
\<close>

datatype exn =
    ValueError
  | ImportError
  | AttributeError
  | TypeError
  | SyntaxError
  | RuntimeError
  | KeyboardInterrupt
  | SystemExit
  | GeneratorExit
  | FieldError string
  | DoesNotExist
  | MultipleObjectsReturned
  | ValidationError

fun is_Exception :: "exn \<Rightarrow> bool" where
  "is_Exception KeyboardInterrupt = False"
| "is_Exception SystemExit = False"
| "is_Exception GeneratorExit = False"
| "is_Exception _ = True"

text \<open>Picklable Python objects, as far as the stored fields need them.\<close>

datatype pyval = PyNone | PyInt int | PyStr string | PyBool bool

text \<open>
  The \<^verbatim>\<open>hook\<close> attribute of a Task instance: a dotted reference (the stored form), or a
  callable held by the in-memory instance (\<^verbatim>\<open>call_hook\<close> tests \<^verbatim>\<open>callable(f)\<close>); a
  callable is named by its identity.
\<close>

datatype hookval = HookRef string | HookCallable string

section \<open>models.py: the tables\<close>

text \<open>\<^verbatim>\<open>Task.STATUS_CHOICES\<close>.\<close>

datatype status = pending | running | success | failed

text \<open>
  \<^verbatim>\<open>class Task(models.Model)\<close>: one record field per declared model field, in the order of
  the class body. A field with \<^verbatim>\<open>null=True\<close> is an option.
\<close>

record Task =
  Task_id :: string
  Task_name :: string
  Task_func :: string
  Task_hook :: "hookval option"
  Task_args :: "pyval option"
  Task_kwargs :: "pyval option"
  Task_result :: "pyval option"
  Task_group :: "string option"
  Task_cluster_type :: "string option"
  Task_created_time :: int
  Task_start_time :: int
  Task_duration :: int
  Task_status :: status
  Task_attempt_count :: int

text \<open>\<^verbatim>\<open>class Cluster(models.Model)\<close>.\<close>

record Cluster =
  Cluster_id :: string
  Cluster_start_time :: int
  Cluster_heartbeat_time :: int
  Cluster_hostname :: string
  Cluster_pid :: int
  Cluster_cluster_type :: "string option"

text \<open>
  \<^verbatim>\<open>class Worker(models.Model)\<close>; the two foreign keys hold the primary key of the row they
  reference.
\<close>

record Worker =
  Worker_id :: string
  Worker_cluster :: string
  Worker_pid :: int
  Worker_start_time :: int
  Worker_task :: "string option"

text \<open>The database: the rows of the three tables, in storage order.\<close>

record DB =
  Task_rows :: "Task list"
  Cluster_rows :: "Cluster list"
  Worker_rows :: "Worker list"

section \<open>The query sets of the Task manager\<close>

text \<open>
  A query set over Task is the list of the rows it selects. A keyword of
  \<^verbatim>\<open>filter(**kwargs)\<close> is resolved against the fields the model declares; Django raises
  \<^verbatim>\<open>FieldError\<close> (``Cannot resolve keyword ... into field'') when \<^verbatim>\<open>filter\<close> is called with
  a keyword that names none of them. \<open>Task_fields\<close> lists the declared fields with the
  value each row holds in that column; the alias \<^verbatim>\<open>pk\<close> and the reverse relation
  \<^verbatim>\<open>worker\<close>, which no call of the two modules uses, are left out.

  The order of the rows is left out as well. The default ordering of the model,
  \<^verbatim>\<open>ordering = ["-stopped"]\<close>, names a field that Task does not declare either; it is not
  resolved by \<^verbatim>\<open>filter\<close>, \<^verbatim>\<open>exists\<close>, \<^verbatim>\<open>get\<close>, \<^verbatim>\<open>count\<close>, \<^verbatim>\<open>delete\<close> or \<^verbatim>\<open>update\<close>, but
  only when a caller reads the rows of a query set that one of the functions has returned.
\<close>

datatype val = VNull | VStr string | VInt int | VBool bool | VPy pyval | VHook hookval

fun status_str :: "status \<Rightarrow> string" where
  "status_str pending = ''pending''"
| "status_str running = ''running''"
| "status_str success = ''success''"
| "status_str failed = ''failed''"

definition opt_val :: "('a \<Rightarrow> val) \<Rightarrow> 'a option \<Rightarrow> val" where
  "opt_val f x = (case x of None \<Rightarrow> VNull | Some y \<Rightarrow> f y)"

definition Task_fields :: "(string \<times> (Task \<Rightarrow> val)) list" where
  "Task_fields =
    [ (''id'', \<lambda>t. VStr (Task_id t)),
      (''name'', \<lambda>t. VStr (Task_name t)),
      (''func'', \<lambda>t. VStr (Task_func t)),
      (''hook'', \<lambda>t. opt_val VHook (Task_hook t)),
      (''args'', \<lambda>t. opt_val VPy (Task_args t)),
      (''kwargs'', \<lambda>t. opt_val VPy (Task_kwargs t)),
      (''result'', \<lambda>t. opt_val VPy (Task_result t)),
      (''group'', \<lambda>t. opt_val VStr (Task_group t)),
      (''cluster_type'', \<lambda>t. opt_val VStr (Task_cluster_type t)),
      (''created_time'', \<lambda>t. VInt (Task_created_time t)),
      (''start_time'', \<lambda>t. VInt (Task_start_time t)),
      (''duration'', \<lambda>t. VInt (Task_duration t)),
      (''status'', \<lambda>t. VStr (status_str (Task_status t))),
      (''attempt_count'', \<lambda>t. VInt (Task_attempt_count t)) ]"

text \<open>\<^verbatim>\<open>qs.filter(kw=v)\<close>.\<close>

definition filter_kw :: "string \<Rightarrow> val \<Rightarrow> Task list \<Rightarrow> exn + Task list" where
  "filter_kw kw v qs =
     (case map_of Task_fields kw of
        None \<Rightarrow> Inl (FieldError kw)
      | Some col \<Rightarrow> Inr (filter (\<lambda>t. col t = v) qs))"

text \<open>\<^verbatim>\<open>qs.exists()\<close> and \<^verbatim>\<open>qs.count()\<close>.\<close>

definition exists_qs :: "Task list \<Rightarrow> bool" where
  "exists_qs qs = (qs \<noteq> [])"

definition count_qs :: "Task list \<Rightarrow> nat" where
  "count_qs qs = length qs"

text \<open>
  \<^verbatim>\<open>qs.get(kw=v)\<close>: the one row that matches; \<^verbatim>\<open>DoesNotExist\<close> when none does,
  \<^verbatim>\<open>MultipleObjectsReturned\<close> when several do.
\<close>

definition get_kw :: "string \<Rightarrow> val \<Rightarrow> Task list \<Rightarrow> exn + Task" where
  "get_kw kw v qs =
     (case filter_kw kw v qs of
        Inl e \<Rightarrow> Inl e
      | Inr [] \<Rightarrow> Inl DoesNotExist
      | Inr [t] \<Rightarrow> Inr t
      | Inr (t # u # rest) \<Rightarrow> Inl MultipleObjectsReturned)"

section \<open>models.py: TaskManager\<close>

text \<open>
  \<^verbatim>\<open>TaskManager.get_task\<close>. The result \<open>Inr None\<close> is the \<^verbatim>\<open>None\<close> a Python function
  returns when it falls off its end. \<^verbatim>\<open>and\<close> does not evaluate its right operand when the
  left one is false.
\<close>

definition get_task :: "Task list \<Rightarrow> string \<Rightarrow> exn + Task option" where
  "get_task objects task_id =
     (case (if length task_id = 32
            then map_sum id exists_qs (filter_kw ''id'' (VStr task_id) objects)
            else Inr False) of
        Inl e \<Rightarrow> Inl e
      | Inr True \<Rightarrow> map_sum id Some (get_kw ''id'' (VStr task_id) objects)
      | Inr False \<Rightarrow>
          (case map_sum id exists_qs (filter_kw ''name'' (VStr task_id) objects) of
             Inl e \<Rightarrow> Inl e
           | Inr True \<Rightarrow> map_sum id Some (get_kw ''name'' (VStr task_id) objects)
           | Inr False \<Rightarrow> Inr None))"

text \<open>
  \<^verbatim>\<open>TaskManager.get_result\<close>: \<^verbatim>\<open>self.get_task(task_id).result\<close>; reading an attribute of
  \<^verbatim>\<open>None\<close> raises \<^verbatim>\<open>AttributeError\<close>.
\<close>

definition get_result :: "Task list \<Rightarrow> string \<Rightarrow> exn + pyval option" where
  "get_result objects task_id =
     (case get_task objects task_id of
        Inl e \<Rightarrow> Inl e
      | Inr None \<Rightarrow> Inl AttributeError
      | Inr (Some t) \<Rightarrow> Inr (Task_result t))"

text \<open>\<^verbatim>\<open>TaskManager.get_group_tasks(group_id, failures=True)\<close>.\<close>

definition get_group_tasks :: "Task list \<Rightarrow> string \<Rightarrow> bool \<Rightarrow> exn + Task list" where
  "get_group_tasks objects group_id failures =
     (case filter_kw ''group'' (VStr group_id) objects of
        Inl e \<Rightarrow> Inl e
      | Inr qs \<Rightarrow> if failures then filter_kw ''success'' (VBool False) qs else Inr qs)"

text \<open>\<^verbatim>\<open>TaskManager.get_group_count(group_id, failures=False)\<close>.\<close>

definition get_group_count :: "Task list \<Rightarrow> string \<Rightarrow> bool \<Rightarrow> exn + nat" where
  "get_group_count objects group_id failures =
     map_sum id count_qs (get_group_tasks objects group_id failures)"

text \<open>
  \<^verbatim>\<open>decode_results\<close>: the values pass through \<^verbatim>\<open>dbsafe_decode\<close> on Django 1.7 only. The
  second component of the Django version string and picklefield's \<^verbatim>\<open>dbsafe_decode\<close> are
  parameters.
\<close>

definition decode_results ::
  "string \<Rightarrow> (pyval option \<Rightarrow> pyval option) \<Rightarrow> pyval option list \<Rightarrow> pyval option list" where
  "decode_results version_minor dbsafe_decode values =
     (if version_minor = ''7'' then map dbsafe_decode values else values)"

text \<open>\<^verbatim>\<open>TaskManager.get_group_results(group_id, failures=False)\<close>.\<close>

definition get_group_results ::
  "string \<Rightarrow> (pyval option \<Rightarrow> pyval option) \<Rightarrow> Task list \<Rightarrow> string \<Rightarrow> bool
     \<Rightarrow> exn + pyval option list" where
  "get_group_results version_minor dbsafe_decode objects group_id failures =
     map_sum id (\<lambda>qs. decode_results version_minor dbsafe_decode (map Task_result qs))
       (get_group_tasks objects group_id failures)"

section \<open>Deleting and updating rows\<close>

text \<open>
  The \<^verbatim>\<open>on_delete\<close> options of a foreign key that the models use, and the two foreign keys
  of Worker with the option each declares: \<^verbatim>\<open>cluster = ForeignKey(Cluster,
  on_delete=models.CASCADE)\<close> and \<^verbatim>\<open>task = ForeignKey(Task, on_delete=models.SET_NULL,
  null=True)\<close>.
\<close>

datatype on_delete = CASCADE | SET_NULL | DO_NOTHING

definition Worker_cluster_on_delete :: on_delete where
  "Worker_cluster_on_delete = CASCADE"

definition Worker_task_on_delete :: on_delete where
  "Worker_task_on_delete = SET_NULL"

text \<open>
  What the deletion of referenced rows does to the Worker rows: \<open>refs w\<close> says that the
  row \<open>w\<close> references a deleted row through the foreign key, \<open>clear w\<close> is \<open>w\<close> with that
  foreign key set to null.
\<close>

fun apply_on_delete ::
  "on_delete \<Rightarrow> (Worker \<Rightarrow> bool) \<Rightarrow> (Worker \<Rightarrow> Worker) \<Rightarrow> Worker list \<Rightarrow> Worker list" where
  "apply_on_delete CASCADE refs clear ws = filter (\<lambda>w. \<not> refs w) ws"
| "apply_on_delete SET_NULL refs clear ws = map (\<lambda>w. if refs w then clear w else w) ws"
| "apply_on_delete DO_NOTHING refs clear ws = ws"

text \<open>Deleting the Task rows with the primary keys \<open>pks\<close>. No model references Worker.\<close>

definition delete_tasks :: "string list \<Rightarrow> DB \<Rightarrow> DB" where
  "delete_tasks pks db =
     db\<lparr> Task_rows := filter (\<lambda>t. Task_id t \<notin> set pks) (Task_rows db),
         Worker_rows :=
           apply_on_delete Worker_task_on_delete
             (\<lambda>w. case Worker_task w of None \<Rightarrow> False | Some k \<Rightarrow> k \<in> set pks)
             (\<lambda>w. w\<lparr>Worker_task := None\<rparr>)
             (Worker_rows db) \<rparr>"

text \<open>Deleting the Cluster rows with the primary keys \<open>pks\<close>.\<close>

definition delete_clusters :: "string list \<Rightarrow> DB \<Rightarrow> DB" where
  "delete_clusters pks db =
     db\<lparr> Cluster_rows := filter (\<lambda>c. Cluster_id c \<notin> set pks) (Cluster_rows db),
         Worker_rows :=
           apply_on_delete Worker_cluster_on_delete
             (\<lambda>w. Worker_cluster w \<in> set pks)
             (\<lambda>w. w)
             (Worker_rows db) \<rparr>"

text \<open>\<^verbatim>\<open>task.delete()\<close> and \<^verbatim>\<open>cluster.delete()\<close> of one row, given by its primary key.\<close>

definition delete_task :: "string \<Rightarrow> DB \<Rightarrow> DB" where
  "delete_task pk db = delete_tasks [pk] db"

definition delete_cluster :: "string \<Rightarrow> DB \<Rightarrow> DB" where
  "delete_cluster pk db = delete_clusters [pk] db"

text \<open>\<^verbatim>\<open>qs.delete()\<close> and \<^verbatim>\<open>qs.update(group=None)\<close> on a query set over Task.\<close>

definition delete_qs :: "Task list \<Rightarrow> DB \<Rightarrow> DB" where
  "delete_qs qs db = delete_tasks (map Task_id qs) db"

definition update_group_None :: "Task list \<Rightarrow> DB \<Rightarrow> DB" where
  "update_group_None qs db =
     db\<lparr> Task_rows :=
           map (\<lambda>t. if Task_id t \<in> set (map Task_id qs) then t\<lparr>Task_group := None\<rparr> else t)
             (Task_rows db) \<rparr>"

text \<open>
  \<^verbatim>\<open>TaskManager.delete_group(group_id, tasks=False)\<close>. It calls
  \<^verbatim>\<open>self.get_group_tasks(group_id)\<close> with one argument, so \<^verbatim>\<open>failures\<close> takes its default
  there, which is \<^verbatim>\<open>True\<close>.
\<close>

definition delete_group :: "DB \<Rightarrow> string \<Rightarrow> bool \<Rightarrow> exn + DB" where
  "delete_group db group_id tasks =
     (case get_group_tasks (Task_rows db) group_id True of
        Inl e \<Rightarrow> Inl e
      | Inr group_qs \<Rightarrow>
          if tasks then Inr (delete_qs group_qs db) else Inr (update_group_None group_qs db))"

section \<open>models.py: Schedule and validate_cron\<close>

text \<open>
  \<^verbatim>\<open>class Schedule(models.Model)\<close>. The class declares no primary key, so Django adds
  the automatic integer field \<^verbatim>\<open>id\<close> in front of the declared fields; it is \<open>None\<close> on an
  instance that has not been saved.
\<close>

record Schedule =
  Schedule_id :: "int option"
  Schedule_name :: "string option"
  Schedule_func :: string
  Schedule_hook :: "string option"
  Schedule_args :: "string option"
  Schedule_kwargs :: "string option"
  Schedule_schedule_type :: string
  Schedule_minutes :: "int option"
  Schedule_repeats :: int
  Schedule_next_run :: "int option"
  Schedule_cron :: "string option"
  Schedule_task :: "string option"

definition ONCE :: string where "ONCE = ''O''"
definition MINUTES :: string where "MINUTES = ''I''"
definition HOURLY :: string where "HOURLY = ''H''"
definition DAILY :: string where "DAILY = ''D''"
definition WEEKLY :: string where "WEEKLY = ''W''"
definition MONTHLY :: string where "MONTHLY = ''M''"
definition QUARTERLY :: string where "QUARTERLY = ''Q''"
definition YEARLY :: string where "YEARLY = ''Y''"
definition CRON :: string where "CRON = ''C''"

text \<open>The codes of \<^verbatim>\<open>Schedule.TYPE\<close>, in its order.\<close>

definition Schedule_TYPE :: "string list" where
  "Schedule_TYPE = [ONCE, MINUTES, HOURLY, DAILY, WEEKLY, MONTHLY, QUARTERLY, YEARLY, CRON]"

text \<open>
  \<^verbatim>\<open>validate_cron\<close>. The name \<^verbatim>\<open>croniter\<close> comes from \<^verbatim>\<open>django_q.conf\<close>, which is not part
  of the sources at hand: it is a parameter, \<open>None\<close> when the optional package is absent
  (\<^verbatim>\<open>not croniter\<close>), otherwise its \<^verbatim>\<open>expand\<close>, which returns an expansion or raises.
\<close>

definition validate_cron :: "(string \<Rightarrow> exn + 'a) option \<Rightarrow> string \<Rightarrow> exn + unit" where
  "validate_cron croniter v =
     (case croniter of
        None \<Rightarrow> Inl ImportError
      | Some expand \<Rightarrow>
          (case expand v of
             Inl e \<Rightarrow> if e = ValueError then Inl ValidationError else Inl e
           | Inr _ \<Rightarrow> Inr ()))"

text \<open>
  Validation of the fields is Django's \<^verbatim>\<open>Model.clean_fields\<close>, which goes through the
  fields of the model in their order and treats each according to the options it declares:
  \<^item> a field with \<^verbatim>\<open>blank=True\<close> whose value is empty (\<^verbatim>\<open>None\<close> or \<^verbatim>\<open>''\<close>) is skipped;
  \<^item> otherwise \<^verbatim>\<open>Field.validate\<close>, unless the field has \<^verbatim>\<open>editable=False\<close>, requires a
    non-empty value to be one of the \<^verbatim>\<open>choices\<close>, if the field has any, and rejects an empty
    value, the field not having \<^verbatim>\<open>blank=True\<close>;
  \<^item> then a non-empty value must pass the validators of the field: the length bound of a
    \<^verbatim>\<open>CharField\<close>, the range of an integer field, and those the declaration lists.
  Each field is cleaned with its own value alone.

  The range of an integer column is the database backend's
  (\<^verbatim>\<open>connection.ops.integer_field_range\<close>): a parameter, one range for each of the three
  integer fields of Schedule.
\<close>

record Ranges =
  id_range :: "int \<times> int"
  minutes_range :: "int \<times> int"
  repeats_range :: "int \<times> int"

definition in_range :: "int \<times> int \<Rightarrow> int \<Rightarrow> exn + unit" where
  "in_range bounds n =
     (if fst bounds \<le> n \<and> n \<le> snd bounds then Inr () else Inl ValidationError)"

definition max_length :: "nat \<Rightarrow> string \<Rightarrow> exn + unit" where
  "max_length n v = (if length v \<le> n then Inr () else Inl ValidationError)"

text \<open>The automatic \<^verbatim>\<open>id\<close>: an integer field with \<^verbatim>\<open>blank=True\<close>.\<close>

definition clean_id :: "int \<times> int \<Rightarrow> Schedule \<Rightarrow> exn + unit" where
  "clean_id bounds s =
     (case Schedule_id s of None \<Rightarrow> Inr () | Some n \<Rightarrow> in_range bounds n)"

text \<open>\<^verbatim>\<open>name = CharField(max_length=100, null=True, blank=True)\<close>.\<close>

definition clean_name :: "Schedule \<Rightarrow> exn + unit" where
  "clean_name s =
     (case Schedule_name s of
        None \<Rightarrow> Inr ()
      | Some v \<Rightarrow> if v = [] then Inr () else max_length 100 v)"

text \<open>\<^verbatim>\<open>func = CharField(max_length=256, ...)\<close>: neither \<^verbatim>\<open>null\<close> nor \<^verbatim>\<open>blank\<close>.\<close>

definition clean_func :: "Schedule \<Rightarrow> exn + unit" where
  "clean_func s =
     (if Schedule_func s = [] then Inl ValidationError else max_length 256 (Schedule_func s))"

text \<open>\<^verbatim>\<open>hook = CharField(max_length=256, null=True, blank=True, ...)\<close>.\<close>

definition clean_hook :: "Schedule \<Rightarrow> exn + unit" where
  "clean_hook s =
     (case Schedule_hook s of
        None \<Rightarrow> Inr ()
      | Some v \<Rightarrow> if v = [] then Inr () else max_length 256 v)"

text \<open>
  \<^verbatim>\<open>args\<close> and \<^verbatim>\<open>kwargs\<close>: \<^verbatim>\<open>TextField(null=True, blank=True, ...)\<close>, with no choices and no
  validator.
\<close>

definition clean_args :: "Schedule \<Rightarrow> exn + unit" where
  "clean_args s =
     (case Schedule_args s of None \<Rightarrow> Inr () | Some v \<Rightarrow> Inr ())"

definition clean_kwargs :: "Schedule \<Rightarrow> exn + unit" where
  "clean_kwargs s =
     (case Schedule_kwargs s of None \<Rightarrow> Inr () | Some v \<Rightarrow> Inr ())"

text \<open>
  \<^verbatim>\<open>schedule_type = CharField(max_length=1, choices=TYPE, default=TYPE[0][0], ...)\<close>: the
  empty string is rejected as blank, another string must be one of the codes.
\<close>

definition clean_schedule_type :: "Schedule \<Rightarrow> exn + unit" where
  "clean_schedule_type s =
     (if Schedule_schedule_type s \<in> set Schedule_TYPE \<and> length (Schedule_schedule_type s) \<le> 1
      then Inr () else Inl ValidationError)"

text \<open>\<^verbatim>\<open>minutes = PositiveSmallIntegerField(null=True, blank=True, ...)\<close>.\<close>

definition clean_minutes :: "int \<times> int \<Rightarrow> Schedule \<Rightarrow> exn + unit" where
  "clean_minutes bounds s =
     (case Schedule_minutes s of
        None \<Rightarrow> Inr ()
      | Some m \<Rightarrow> if fst bounds \<le> m \<and> m \<le> snd bounds then Inr () else Inl ValidationError)"

text \<open>\<^verbatim>\<open>repeats = IntegerField(default=-1, ...)\<close>.\<close>

definition clean_repeats :: "int \<times> int \<Rightarrow> Schedule \<Rightarrow> exn + unit" where
  "clean_repeats bounds s = in_range bounds (Schedule_repeats s)"

text \<open>
  \<^verbatim>\<open>next_run = DateTimeField(default=timezone.now, null=True, ...)\<close>: it has \<^verbatim>\<open>null=True\<close>
  and not \<^verbatim>\<open>blank=True\<close>, so \<^verbatim>\<open>None\<close> is rejected as blank.
\<close>

definition clean_next_run :: "Schedule \<Rightarrow> exn + unit" where
  "clean_next_run s =
     (case Schedule_next_run s of None \<Rightarrow> Inl ValidationError | Some d \<Rightarrow> Inr ())"

text \<open>
  \<^verbatim>\<open>cron = CharField(max_length=100, null=True, blank=True, validators=[validate_cron])\<close>.
  An exception of a validator that is not a \<^verbatim>\<open>ValidationError\<close> leaves at once.
\<close>

definition clean_cron :: "(string \<Rightarrow> exn + 'a) option \<Rightarrow> Schedule \<Rightarrow> exn + unit" where
  "clean_cron croniter s =
     (case Schedule_cron s of
        None \<Rightarrow> Inr ()
      | Some v \<Rightarrow>
          if v = [] then Inr ()
          else (case validate_cron croniter v of
                  Inl e \<Rightarrow> Inl e
                | Inr _ \<Rightarrow> if length v \<le> 100 then Inr () else Inl ValidationError))"

text \<open>
  \<^verbatim>\<open>task = CharField(max_length=100, null=True, editable=False)\<close>: not editable, so only
  the length of a non-empty value is checked.
\<close>

definition clean_task :: "Schedule \<Rightarrow> exn + unit" where
  "clean_task s =
     (case Schedule_task s of
        None \<Rightarrow> Inr ()
      | Some v \<Rightarrow> if v = [] then Inr () else max_length 100 v)"

text \<open>
  The loop of \<^verbatim>\<open>clean_fields\<close> over the fields: a \<^verbatim>\<open>ValidationError\<close> of a field is
  collected and the loop goes on, the collected errors are raised together after the last
  field; any other exception leaves the loop at once. \<open>errors\<close> says whether an error has
  been collected.
\<close>

fun clean_loop :: "(exn + unit) list \<Rightarrow> bool \<Rightarrow> exn + unit" where
  "clean_loop [] errors = (if errors then Inl ValidationError else Inr ())"
| "clean_loop (r # rs) errors =
     (case r of
        Inr _ \<Rightarrow> clean_loop rs errors
      | Inl e \<Rightarrow> if e = ValidationError then clean_loop rs True else Inl e)"

text \<open>\<^verbatim>\<open>Model.clean_fields\<close> on a Schedule: its twelve fields, in their order.\<close>

definition clean_fields ::
  "(string \<Rightarrow> exn + 'a) option \<Rightarrow> Ranges \<Rightarrow> Schedule \<Rightarrow> exn + unit" where
  "clean_fields croniter ranges s =
     clean_loop
       [ clean_id (id_range ranges) s,
         clean_name s,
         clean_func s,
         clean_hook s,
         clean_args s,
         clean_kwargs s,
         clean_schedule_type s,
         clean_minutes (minutes_range ranges) s,
         clean_repeats (repeats_range ranges) s,
         clean_next_run s,
         clean_cron croniter s,
         clean_task s ]
       False"

text \<open>
  Saving a Schedule: Django's \<^verbatim>\<open>Model.save\<close> writes the row and runs no validator;
  \<^verbatim>\<open>clean_fields\<close>, and with it \<^verbatim>\<open>validate_cron\<close>, runs only for a caller that asks for the
  validation of the instance, as a model form does. The row replaces the one with the same
  primary key if there is one, and a row without a key gets one from the database,
  \<open>new_id\<close>. What the database itself checks on the values of the columns depends on the
  backend and is the parameter \<open>db_check\<close>, which gives the error the write raises, if any.
\<close>

definition Schedule_save ::
  "(Schedule \<Rightarrow> exn option) \<Rightarrow> int \<Rightarrow> Schedule \<Rightarrow> Schedule list \<Rightarrow> exn + Schedule list" where
  "Schedule_save db_check new_id s rows =
     (case db_check s of
        Some e \<Rightarrow> Inl e
      | None \<Rightarrow>
          (case Schedule_id s of
             None \<Rightarrow> Inr (rows @ [s\<lparr>Schedule_id := Some new_id\<rparr>])
           | Some i \<Rightarrow>
               if list_ex (\<lambda>r. Schedule_id r = Some i) rows
               then Inr (map (\<lambda>r. if Schedule_id r = Some i then s else r) rows)
               else Inr (rows @ [s])))"

section \<open>signals.py: call_hook\<close>

text \<open>
  What \<^verbatim>\<open>call_hook\<close> takes from outside the two modules: \<^verbatim>\<open>import_function\<close> of
  \<^verbatim>\<open>django_q.tasks\<close>, which resolves a reference to a callable or raises, and the
  behaviour of a callable applied to a Task instance, \<^verbatim>\<open>f(instance)\<close>, which returns
  (\<open>None\<close>) or raises (\<open>Some e\<close>).
\<close>

record Env =
  import_function :: "string \<Rightarrow> exn + string"
  call :: "string \<Rightarrow> Task \<Rightarrow> exn option"

text \<open>The two messages \<^verbatim>\<open>call_hook\<close> passes to \<^verbatim>\<open>logger.error\<close>.\<close>

datatype log_entry =
    Malformed_return_hook hookval string
  | Return_hook_failed hookval string exn

text \<open>
  The effects of \<^verbatim>\<open>call_hook\<close>: the lines logged, and the calls \<^verbatim>\<open>f(instance)\<close> made, each
  with the callable and its argument.
\<close>

record Trace =
  log :: "log_entry list"
  calls :: "(string \<times> Task) list"

text \<open>
  The truth value of \<^verbatim>\<open>instance.hook\<close>: \<^verbatim>\<open>None\<close> and the empty string are false.
\<close>

fun truthy :: "hookval option \<Rightarrow> bool" where
  "truthy None = False"
| "truthy (Some (HookRef r)) = (r \<noteq> [])"
| "truthy (Some (HookCallable c)) = True"

text \<open>
  Lines 15 to 18: \<^verbatim>\<open>f = instance.hook\<close>, replaced by \<^verbatim>\<open>import_function(f)\<close> when it is
  not callable.
\<close>

fun resolve :: "Env \<Rightarrow> hookval \<Rightarrow> exn + string" where
  "resolve env (HookCallable c) = Inr c"
| "resolve env (HookRef r) = import_function env r"

text \<open>
  \<^verbatim>\<open>call_hook(sender, instance, **kwargs)\<close>. The first component of the result is the
  exception that leaves the function, if any.
\<close>

definition call_hook :: "Env \<Rightarrow> Task \<Rightarrow> Trace \<Rightarrow> exn option \<times> Trace" where
  "call_hook env instance st =
     (case Task_hook instance of
        None \<Rightarrow> (None, st)
      | Some h \<Rightarrow>
          if truthy (Some h) then
            (case resolve env h of
               Inl e \<Rightarrow>
                 if e = ValueError \<or> e = ImportError \<or> e = AttributeError
                 then (None, st\<lparr>log := log st @ [Malformed_return_hook h (Task_name instance)]\<rparr>)
                 else (Some e, st)
             | Inr f \<Rightarrow>
                 (let st1 = st\<lparr>calls := calls st @ [(f, instance)]\<rparr> in
                  case call env f instance of
                    None \<Rightarrow> (None, st1)
                  | Some e \<Rightarrow>
                      if is_Exception e
                      then (None,
                            st1\<lparr>log := log st1 @ [Return_hook_failed h (Task_name instance) e]\<rparr>)
                      else (Some e, st1)))
          else (None, st))"

text \<open>
  Saving a Task: Django's \<^verbatim>\<open>Model.save\<close> writes the row, replacing the one with the same
  primary key if there is one, and then sends \<^verbatim>\<open>post_save\<close>; line 12 registers
  \<^verbatim>\<open>call_hook\<close> as its receiver for the sender Task. An exception of a receiver leaves
  \<^verbatim>\<open>save\<close>.
\<close>

definition save_row :: "Task \<Rightarrow> DB \<Rightarrow> DB" where
  "save_row t db =
     (if list_ex (\<lambda>u. Task_id u = Task_id t) (Task_rows db)
      then db\<lparr>Task_rows := map (\<lambda>u. if Task_id u = Task_id t then t else u) (Task_rows db)\<rparr>
      else db\<lparr>Task_rows := Task_rows db @ [t]\<rparr>)"

definition Task_save :: "Env \<Rightarrow> Task \<Rightarrow> DB \<times> Trace \<Rightarrow> exn option \<times> DB \<times> Trace" where
  "Task_save env instance s =
     (let db' = save_row instance (fst s);
          r = call_hook env instance (snd s)
      in (fst r, db', snd r))"

section \<open>Specification-side definitions and example data\<close>

text \<open>
  The reading of the specification's sentence on \<^verbatim>\<open>get_task\<close>: the length of the input
  alone chooses between the lookup by id and the lookup by name. \<open>one_row\<close> is the outcome
  of a lookup: no task, the task, or the error of an ambiguous match.
\<close>

definition one_row :: "Task list \<Rightarrow> exn + Task option" where
  "one_row qs =
     (case qs of
        [] \<Rightarrow> Inr None
      | [t] \<Rightarrow> Inr (Some t)
      | t # u # rest \<Rightarrow> Inl MultipleObjectsReturned)"

definition spec_get_task :: "Task list \<Rightarrow> string \<Rightarrow> exn + Task option" where
  "spec_get_task objects s =
     (if length s = 32
      then one_row (filter (\<lambda>t. Task_id t = s) objects)
      else one_row (filter (\<lambda>t. Task_name t = s) objects))"

text \<open>A finished task of group \<open>g1\<close> whose name has 32 characters, as its id has.\<close>

definition digest_task :: Task where
  "digest_task =
     \<lparr> Task_id = ''0123456789abcdef0123456789abcdef'',
       Task_name = ''send_weekly_digest_to_subscriber'',
       Task_func = ''mail.tasks.send_digest'',
       Task_hook = None,
       Task_args = None,
       Task_kwargs = None,
       Task_result = Some (PyInt 3),
       Task_group = Some ''g1'',
       Task_cluster_type = None,
       Task_created_time = 100,
       Task_start_time = 110,
       Task_duration = 5,
       Task_status = success,
       Task_attempt_count = 1 \<rparr>"

text \<open>A second task with the same name, and a task that has not started, with a hook.\<close>

definition digest_task2 :: Task where
  "digest_task2 =
     digest_task\<lparr> Task_id := ''fedcba9876543210fedcba9876543210'', Task_status := failed \<rparr>"

definition pending_task :: Task where
  "pending_task =
     digest_task\<lparr> Task_id := ''00000000000000000000000000000001'',
                  Task_name := ''report'',
                  Task_hook := Some (HookRef ''mail.hooks.notify''),
                  Task_result := None,
                  Task_status := pending,
                  Task_attempt_count := 0 \<rparr>"




text \<open>
  Four environments for the hook \<^verbatim>\<open>mail.hooks.notify\<close>: it resolves and returns; it
  resolves and raises \<^verbatim>\<open>ValueError\<close>; it resolves and ends the process with
  \<^verbatim>\<open>sys.exit()\<close>, that is, raises \<^verbatim>\<open>SystemExit\<close>; importing its module raises
  \<^verbatim>\<open>SyntaxError\<close>. In the first three another reference raises \<^verbatim>\<open>ImportError\<close>.
\<close>

definition env_ok :: Env where
  "env_ok = \<lparr> import_function = (\<lambda>r. if r = ''mail.hooks.notify'' then Inr ''notify''
                                     else Inl ImportError),
              call = (\<lambda>f t. None) \<rparr>"




definition no_trace :: Trace where
  "no_trace = \<lparr> log = [], calls = [] \<rparr>"

text \<open>A database with two workers of one cluster, the first running \<open>digest_task\<close>.\<close>

definition example_db :: DB where
  "example_db =
     \<lparr> Task_rows = [digest_task, pending_task],
       Cluster_rows = [\<lparr> Cluster_id = ''c1'', Cluster_start_time = 0,
                         Cluster_heartbeat_time = 0, Cluster_hostname = ''host'',
                         Cluster_pid = 10, Cluster_cluster_type = None \<rparr>],
       Worker_rows = [\<lparr> Worker_id = ''w1'', Worker_cluster = ''c1'', Worker_pid = 11,
                        Worker_start_time = 0,
                        Worker_task = Some ''0123456789abcdef0123456789abcdef'' \<rparr>,
                      \<lparr> Worker_id = ''w2'', Worker_cluster = ''c1'', Worker_pid = 12,
                        Worker_start_time = 0, Worker_task = None \<rparr>] \<rparr>"

text \<open>
  A stand-in for \<^verbatim>\<open>croniter.expand\<close> that accepts one expression and rejects every
  other, the empty one too; the ranges of a backend with 32-bit integer columns; a database
  that finds no fault with the values it is given; and an unsaved Schedule with a given
  type, minutes value and cron expression, its other fields valid.
\<close>

definition toy_expand :: "string \<Rightarrow> exn + unit" where
  "toy_expand v = (if v = ''0 0 * * *'' then Inr () else Inl ValueError)"

definition example_ranges :: Ranges where
  "example_ranges =
     \<lparr> id_range = (-2147483648, 2147483647),
       minutes_range = (0, 32767),
       repeats_range = (-2147483648, 2147483647) \<rparr>"

definition db_accepts :: "Schedule \<Rightarrow> exn option" where
  "db_accepts s = None"

definition bare_schedule :: "string \<Rightarrow> int option \<Rightarrow> string option \<Rightarrow> Schedule" where
  "bare_schedule ty m c =
     \<lparr> Schedule_id = None, Schedule_name = None, Schedule_func = ''mail.tasks.send_digest'',
       Schedule_hook = None, Schedule_args = None, Schedule_kwargs = None,
       Schedule_schedule_type = ty, Schedule_minutes = m, Schedule_repeats = -1,
       Schedule_next_run = Some 0, Schedule_cron = c, Schedule_task = None \<rparr>"

section \<open>Query sets: what the keywords of the manager select\<close>

lemma filter_kw_id:
  "filter_kw ''id'' (VStr s) qs = Inr (filter (\<lambda>t. Task_id t = s) qs)"
  by (simp add: filter_kw_def Task_fields_def)

lemma filter_kw_name:
  "filter_kw ''name'' (VStr s) qs = Inr (filter (\<lambda>t. Task_name t = s) qs)"
  by (simp add: filter_kw_def Task_fields_def)

lemma opt_val_VStr: "(opt_val VStr x = VStr g) = (x = Some g)"
  by (cases x) (simp_all add: opt_val_def)

lemma filter_kw_group:
  "filter_kw ''group'' (VStr g) qs = Inr (filter (\<lambda>t. Task_group t = Some g) qs)"
  by (simp add: filter_kw_def Task_fields_def opt_val_VStr)

lemma filter_kw_success:
  "filter_kw ''success'' v qs = Inl (FieldError ''success'')"
  by (simp add: filter_kw_def Task_fields_def)

lemma get_kw_one_row:
  "map_sum id Some (get_kw ''id'' (VStr s) qs) =
     (case filter (\<lambda>t. Task_id t = s) qs of
        [] \<Rightarrow> Inl DoesNotExist
      | [t] \<Rightarrow> Inr (Some t)
      | t # u # rest \<Rightarrow> Inl MultipleObjectsReturned)"
  "map_sum id Some (get_kw ''name'' (VStr s) qs) =
     (case filter (\<lambda>t. Task_name t = s) qs of
        [] \<Rightarrow> Inl DoesNotExist
      | [t] \<Rightarrow> Inr (Some t)
      | t # u # rest \<Rightarrow> Inl MultipleObjectsReturned)"
  by (simp_all add: get_kw_def filter_kw_id filter_kw_name split: list.splits)

lemma filter_kw_count_le:
  "filter_kw kw v qs = Inr qs' \<Longrightarrow> length qs' \<le> length qs"
  by (auto simp: filter_kw_def split: option.splits)

lemma get_group_tasks_failures:
  "get_group_tasks objects g True = Inl (FieldError ''success'')"
  by (simp add: get_group_tasks_def filter_kw_group filter_kw_success)

lemma get_group_tasks_all:
  "get_group_tasks objects g False = Inr (filter (\<lambda>t. Task_group t = Some g) objects)"
  by (simp add: get_group_tasks_def filter_kw_group)

lemma get_task_cases:
  "get_task objects s =
     (if length s = 32 \<and> filter (\<lambda>t. Task_id t = s) objects \<noteq> []
      then one_row (filter (\<lambda>t. Task_id t = s) objects)
      else one_row (filter (\<lambda>t. Task_name t = s) objects))"
  by (simp add: get_task_def filter_kw_id filter_kw_name get_kw_one_row exists_qs_def
        one_row_def split: list.splits)

lemma filter_unique_key:
  "distinct (map f xs) \<Longrightarrow> t \<in> set xs \<Longrightarrow> filter (\<lambda>u. f u = f t) xs = [t]"
proof (induction xs)
  case Nil
  then show ?case by simp
next
  case (Cons x xs)
  show ?case
  proof (cases "x = t")
    case True
    with Cons.prems have "f t \<notin> f ` set xs" by simp
    then have "\<forall>u \<in> set xs. f u \<noteq> f t"
      by (metis imageI)
    then have "filter (\<lambda>u. f u = f t) xs = []"
      by (simp add: filter_empty_conv)
    with True show ?thesis by simp
  next
    case False
    with Cons.prems have mem: "t \<in> set xs" and "f x \<notin> f ` set xs" by auto
    then have "f x \<noteq> f t" by auto
    with Cons.IH Cons.prems mem show ?thesis by simp
  qed
qed

section \<open>TaskManager.get_task and get_result\<close>

text \<open>
  C4, as the specification words it, does not hold: a 32-character input that is no
  task's id is looked up by name, not by id. Here the only stored task has a name of 32
  characters; \<^verbatim>\<open>get_task\<close> of that name returns the task, where a lookup chosen by the
  length alone finds none.
\<close>

theorem get_task_length_alone_counterexample:
  "get_task [digest_task] ''send_weekly_digest_to_subscriber'' = Inr (Some digest_task) \<and>
   spec_get_task [digest_task] ''send_weekly_digest_to_subscriber'' = Inr None"
  by (simp add: get_task_cases spec_get_task_def one_row_def digest_task_def)

text \<open>
  C4, amended: \<^verbatim>\<open>get_task(s)\<close> looks the task up by id when \<open>s\<close> has 32 characters and a
  task with that id is stored, and by name in every other case, also for a 32-character
  \<open>s\<close> that is no stored id. With unique ids the lookup by id returns the task of that id.
  A lookup by name that matches two or more tasks raises \<^verbatim>\<open>MultipleObjectsReturned\<close>; it
  never returns the first match.
\<close>

theorem get_task_id_then_name:
  "get_task objects s =
     (if length s = 32 \<and> filter (\<lambda>t. Task_id t = s) objects \<noteq> []
      then one_row (filter (\<lambda>t. Task_id t = s) objects)
      else one_row (filter (\<lambda>t. Task_name t = s) objects))
   \<and> (length s = 32 \<and> distinct (map Task_id objects) \<and> t \<in> set objects \<and> Task_id t = s
        \<longrightarrow> get_task objects s = Inr (Some t))
   \<and> (\<not> (length s = 32 \<and> filter (\<lambda>t. Task_id t = s) objects \<noteq> []) \<and>
        2 \<le> length (filter (\<lambda>t. Task_name t = s) objects)
        \<longrightarrow> get_task objects s = Inl MultipleObjectsReturned)"
proof (intro conjI impI)
  show "get_task objects s =
     (if length s = 32 \<and> filter (\<lambda>t. Task_id t = s) objects \<noteq> []
      then one_row (filter (\<lambda>t. Task_id t = s) objects)
      else one_row (filter (\<lambda>t. Task_name t = s) objects))"
    by (rule get_task_cases)
next
  assume h: "length s = 32 \<and> distinct (map Task_id objects) \<and> t \<in> set objects \<and> Task_id t = s"
  then have d: "distinct (map Task_id objects)" and mem: "t \<in> set objects" by simp_all
  from filter_unique_key [OF d mem] h
  have "filter (\<lambda>u. Task_id u = s) objects = [t]" by simp
  with h show "get_task objects s = Inr (Some t)"
    by (simp add: get_task_cases one_row_def)
next
  assume h: "\<not> (length s = 32 \<and> filter (\<lambda>t. Task_id t = s) objects \<noteq> []) \<and>
        2 \<le> length (filter (\<lambda>t. Task_name t = s) objects)"
  then have "2 \<le> length (filter (\<lambda>t. Task_name t = s) objects)" by simp
  then obtain a b rest where "filter (\<lambda>t. Task_name t = s) objects = a # b # rest"
    by (cases "filter (\<lambda>t. Task_name t = s) objects" rule: list.exhaust;
        cases "tl (filter (\<lambda>t. Task_name t = s) objects)") auto
  with h show "get_task objects s = Inl MultipleObjectsReturned"
    by (simp add: get_task_cases one_row_def)
qed

theorem get_task_id_then_name_witness:
  "get_task [digest_task, digest_task2] ''0123456789abcdef0123456789abcdef''
     = Inr (Some digest_task) \<and>
   get_task [digest_task, digest_task2] ''send_weekly_digest_to_subscriber''
     = Inl MultipleObjectsReturned"
  using get_task_id_then_name
          [of "[digest_task, digest_task2]" "''0123456789abcdef0123456789abcdef''" digest_task]
        get_task_id_then_name
          [of "[digest_task, digest_task2]" "''send_weekly_digest_to_subscriber''" digest_task]
  by (simp add: digest_task_def digest_task2_def one_row_def)

text \<open>
  C10: for an input \<open>s\<close> that is the id and the name of no stored task, \<^verbatim>\<open>get_task(s)\<close>
  returns \<^verbatim>\<open>None\<close> and raises nothing, and \<^verbatim>\<open>get_result(s)\<close> raises \<^verbatim>\<open>AttributeError\<close>, the
  read of \<^verbatim>\<open>.result\<close> on \<^verbatim>\<open>None\<close>.
\<close>

theorem get_task_None_get_result_raises:
  assumes "\<forall>t \<in> set objects. Task_id t \<noteq> s \<and> Task_name t \<noteq> s"
  shows "get_task objects s = Inr None \<and> get_result objects s = Inl AttributeError"
proof -
  from assms have "filter (\<lambda>t. Task_id t = s) objects = []"
    and "filter (\<lambda>t. Task_name t = s) objects = []"
    by (simp_all add: filter_empty_conv)
  then have "get_task objects s = Inr None"
    by (simp add: get_task_cases one_row_def)
  then show ?thesis by (simp add: get_result_def)
qed

theorem get_task_None_get_result_raises_witness:
  "get_task [digest_task, pending_task] ''0123456789abcdef0123456789abcdee'' = Inr None \<and>
   get_result [digest_task, pending_task] ''0123456789abcdef0123456789abcdee''
     = Inl AttributeError"
  using get_task_None_get_result_raises
          [of "[digest_task, pending_task]" "''0123456789abcdef0123456789abcdee''"]
  by (simp add: digest_task_def pending_task_def)

section \<open>The group queries and delete_group\<close>

text \<open>
  C5: with \<^verbatim>\<open>failures=False\<close> the three group queries select the Task rows whose group is
  \<open>g\<close>, all of them. With \<^verbatim>\<open>failures=True\<close> they do not select the failed ones among
  them: \<^verbatim>\<open>get_group_tasks\<close> filters on \<^verbatim>\<open>success=False\<close>, and Task declares a \<^verbatim>\<open>status\<close>
  field and no \<^verbatim>\<open>success\<close> field, so the filter raises \<^verbatim>\<open>FieldError\<close> whatever the rows.
\<close>

theorem group_queries_select:
  "get_group_tasks objects g False = Inr (filter (\<lambda>t. Task_group t = Some g) objects) \<and>
   get_group_count objects g False = Inr (length (filter (\<lambda>t. Task_group t = Some g) objects)) \<and>
   get_group_results vm dec objects g False =
     Inr (decode_results vm dec (map Task_result (filter (\<lambda>t. Task_group t = Some g) objects))) \<and>
   get_group_tasks objects g True = Inl (FieldError ''success'') \<and>
   get_group_count objects g True = Inl (FieldError ''success'') \<and>
   get_group_results vm dec objects g True = Inl (FieldError ''success'')"
  by (simp add: get_group_count_def get_group_results_def count_qs_def
        get_group_tasks_failures get_group_tasks_all)

text \<open>
  C6: the count with \<^verbatim>\<open>failures=False\<close> is the number of rows of the group, and the call
  with \<^verbatim>\<open>failures=True\<close> returns no count to compare with it: it raises the
  \<^verbatim>\<open>FieldError\<close> of the filter on \<^verbatim>\<open>success\<close>, in every state of the Task table. (A
  filter that resolves can only lower a count, \<open>filter_kw_count_le\<close>; this one does not
  resolve.)
\<close>

theorem get_group_count_failures_raises:
  "get_group_count objects g True = Inl (FieldError ''success'') \<and>
   (\<exists>n. get_group_count objects g False = Inr n \<and> n \<le> length objects)"
proof
  show "get_group_count objects g True = Inl (FieldError ''success'')"
    by (simp add: get_group_count_def get_group_tasks_failures)
next
  have "get_group_count objects g False =
          Inr (length (filter (\<lambda>t. Task_group t = Some g) objects))"
    by (simp add: get_group_count_def count_qs_def get_group_tasks_all)
  then show "\<exists>n. get_group_count objects g False = Inr n \<and> n \<le> length objects"
    by simp
qed

text \<open>
  C1: \<^verbatim>\<open>delete_group\<close> neither deletes the rows of the group nor clears their group
  tag. It selects the rows with \<^verbatim>\<open>get_group_tasks(group_id)\<close>, whose \<^verbatim>\<open>failures\<close> defaults to
  \<^verbatim>\<open>True\<close>, and so raises the \<^verbatim>\<open>FieldError\<close> of the filter on \<^verbatim>\<open>success\<close> before it
  reaches \<^verbatim>\<open>delete\<close> or \<^verbatim>\<open>update\<close>, for both values of \<^verbatim>\<open>tasks\<close>; the table of the example,
  with its member of \<open>g1\<close>, is left as it was.
\<close>

theorem delete_group_raises:
  "delete_group db g tasks = Inl (FieldError ''success'') \<and>
   delete_group example_db ''g1'' True \<noteq> Inr (delete_qs [digest_task] example_db) \<and>
   delete_group example_db ''g1'' False \<noteq> Inr (update_group_None [digest_task] example_db)"
proof -
  have raises: "delete_group d x b = Inl (FieldError ''success'')" for d x b
    by (simp add: delete_group_def get_group_tasks_failures)
  show ?thesis
    by (simp add: raises)
qed

section \<open>The foreign keys of Worker\<close>

lemma refs_task_singleton:
  "(case Worker_task w of None \<Rightarrow> False | Some k \<Rightarrow> k \<in> set [pk]) = (Worker_task w = Some pk)"
  by (cases "Worker_task w") auto

text \<open>
  C9: deleting the Task row \<open>pk\<close> keeps every Worker row, in place, and sets the task
  reference of those that reference \<open>pk\<close> to null, their other fields as they were;
  deleting the Cluster row \<open>pk\<close> deletes the Worker rows that reference it and keeps the
  others as they were.
\<close>

theorem worker_foreign_keys_on_delete:
  "Worker_rows (delete_task pk db) =
     map (\<lambda>w. if Worker_task w = Some pk then w\<lparr>Worker_task := None\<rparr> else w) (Worker_rows db) \<and>
   length (Worker_rows (delete_task pk db)) = length (Worker_rows db) \<and>
   Task_rows (delete_task pk db) = filter (\<lambda>t. Task_id t \<noteq> pk) (Task_rows db) \<and>
   Worker_rows (delete_cluster pk db) = filter (\<lambda>w. Worker_cluster w \<noteq> pk) (Worker_rows db) \<and>
   Cluster_rows (delete_cluster pk db) = filter (\<lambda>c. Cluster_id c \<noteq> pk) (Cluster_rows db)"
  by (simp add: delete_task_def delete_tasks_def delete_cluster_def delete_clusters_def
        Worker_task_on_delete_def Worker_cluster_on_delete_def refs_task_singleton)

section \<open>call_hook\<close>


lemma call_hook_calls:
  "calls (snd (call_hook env t st)) =
     (case Task_hook t of
        None \<Rightarrow> calls st
      | Some h \<Rightarrow>
          if truthy (Some h)
          then (case resolve env h of Inl e \<Rightarrow> calls st | Inr f \<Rightarrow> calls st @ [(f, t)])
          else calls st)"
  by (simp add: call_hook_def Let_def split: option.splits sum.splits)




text \<open>
  C3: \<^verbatim>\<open>call_hook\<close> never reads the status. The callable is called on the save of every
  Task whose hook is neither null nor empty and resolves; here on the save of a Task that
  is still pending.
\<close>

theorem call_hook_on_pending_save:
  "Task_status pending_task = pending \<and>
   Task_save env_ok pending_task (example_db, no_trace) =
     (None, save_row pending_task example_db,
      \<lparr> log = [], calls = [(''notify'', pending_task)] \<rparr>)"
  by (simp add: Task_save_def call_hook_def env_ok_def pending_task_def digest_task_def
        no_trace_def Let_def)

section \<open>validate_cron and the validation of a Schedule\<close>

lemma clean_loop_ok:
  "(clean_loop rs errors = Inr ()) = (\<not> errors \<and> (\<forall>r \<in> set rs. r = Inr ()))"
  by (induction rs arbitrary: errors) (auto split: sum.splits)

lemma clean_loop_ValidationError:
  "\<forall>r \<in> set rs. r = Inr () \<or> r = Inl ValidationError \<Longrightarrow>
   errors \<or> (\<exists>r \<in> set rs. r = Inl ValidationError) \<Longrightarrow>
   clean_loop rs errors = Inl ValidationError"
  by (induction rs arbitrary: errors) (auto split: sum.splits)

lemma in_range_cases: "in_range bounds n = Inr () \<or> in_range bounds n = Inl ValidationError"
  by (simp add: in_range_def)

lemma max_length_cases: "max_length n v = Inr () \<or> max_length n v = Inl ValidationError"
  by (simp add: max_length_def)

lemma clean_other_fields_cases:
  "clean_id bounds s = Inr () \<or> clean_id bounds s = Inl ValidationError"
  "clean_name s = Inr () \<or> clean_name s = Inl ValidationError"
  "clean_func s = Inr () \<or> clean_func s = Inl ValidationError"
  "clean_hook s = Inr () \<or> clean_hook s = Inl ValidationError"
  "clean_args s = Inr () \<or> clean_args s = Inl ValidationError"
  "clean_kwargs s = Inr () \<or> clean_kwargs s = Inl ValidationError"
  "clean_schedule_type s = Inr () \<or> clean_schedule_type s = Inl ValidationError"
  "clean_minutes bounds s = Inr () \<or> clean_minutes bounds s = Inl ValidationError"
  "clean_repeats bounds s = Inr () \<or> clean_repeats bounds s = Inl ValidationError"
  "clean_next_run s = Inr () \<or> clean_next_run s = Inl ValidationError"
  "clean_task s = Inr () \<or> clean_task s = Inl ValidationError"
  using in_range_cases max_length_cases
  by (simp_all add: clean_id_def clean_name_def clean_func_def clean_hook_def clean_args_def
        clean_kwargs_def clean_schedule_type_def clean_minutes_def clean_repeats_def
        clean_next_run_def clean_task_def split: option.splits)

lemma clean_schedule_type_ok:
  "(clean_schedule_type s = Inr ()) = (Schedule_schedule_type s \<in> set Schedule_TYPE)"
  by (auto simp: clean_schedule_type_def Schedule_TYPE_def ONCE_def MINUTES_def HOURLY_def
        DAILY_def WEEKLY_def MONTHLY_def QUARTERLY_def YEARLY_def CRON_def)

lemma clean_fields_ok:
  "(clean_fields croniter ranges s = Inr ()) =
     (clean_id (id_range ranges) s = Inr () \<and> clean_name s = Inr () \<and> clean_func s = Inr () \<and>
      clean_hook s = Inr () \<and> clean_args s = Inr () \<and> clean_kwargs s = Inr () \<and>
      clean_schedule_type s = Inr () \<and> clean_minutes (minutes_range ranges) s = Inr () \<and>
      clean_repeats (repeats_range ranges) s = Inr () \<and> clean_next_run s = Inr () \<and>
      clean_cron croniter s = Inr () \<and> clean_task s = Inr ())"
  unfolding clean_fields_def by (subst clean_loop_ok) simp

lemma clean_fields_cron_rejected:
  assumes "clean_cron croniter s = Inl ValidationError"
  shows "clean_fields croniter ranges s = Inl ValidationError"
  unfolding clean_fields_def
  by (rule clean_loop_ValidationError) (use assms clean_other_fields_cases in auto)

lemma Schedule_save_stores:
  assumes "db_check s = None"
  shows "\<exists>rows'. Schedule_save db_check new_id s rows = Inr rows' \<and>
           s\<lparr>Schedule_id := Some (case Schedule_id s of None \<Rightarrow> new_id | Some i \<Rightarrow> i)\<rparr>
             \<in> set rows'"
proof (cases "Schedule_id s")
  case None
  with assms show ?thesis by (simp add: Schedule_save_def)
next
  case (Some i)
  then have same: "s\<lparr>Schedule_id := Some i\<rparr> = s" by (cases s) simp
  show ?thesis
  proof (cases "list_ex (\<lambda>r. Schedule_id r = Some i) rows")
    case True
    then obtain r where "r \<in> set rows" and "Schedule_id r = Some i"
      by (auto simp: list_ex_iff)
    then have mem: "s \<in> set (map (\<lambda>r. if Schedule_id r = Some i then s else r) rows)"
      by force
    have eq: "Schedule_save db_check new_id s rows =
                Inr (map (\<lambda>r. if Schedule_id r = Some i then s else r) rows)"
      using assms Some True by (simp add: Schedule_save_def)
    have tgt: "s\<lparr>Schedule_id := Some (case Schedule_id s of None \<Rightarrow> new_id | Some i \<Rightarrow> i)\<rparr> = s"
      using Some same by simp
    show ?thesis unfolding eq tgt using mem by blast
  next
    case False
    with assms Some same show ?thesis by (simp add: Schedule_save_def)
  qed
qed

text \<open>Each field is cleaned with its own value: an update of another field changes nothing.\<close>

lemma clean_upd_cron:
  "clean_id b (s\<lparr>Schedule_cron := x\<rparr>) = clean_id b s"
  "clean_name (s\<lparr>Schedule_cron := x\<rparr>) = clean_name s"
  "clean_func (s\<lparr>Schedule_cron := x\<rparr>) = clean_func s"
  "clean_hook (s\<lparr>Schedule_cron := x\<rparr>) = clean_hook s"
  "clean_args (s\<lparr>Schedule_cron := x\<rparr>) = clean_args s"
  "clean_kwargs (s\<lparr>Schedule_cron := x\<rparr>) = clean_kwargs s"
  "clean_schedule_type (s\<lparr>Schedule_cron := x\<rparr>) = clean_schedule_type s"
  "clean_minutes b (s\<lparr>Schedule_cron := x\<rparr>) = clean_minutes b s"
  "clean_repeats b (s\<lparr>Schedule_cron := x\<rparr>) = clean_repeats b s"
  "clean_next_run (s\<lparr>Schedule_cron := x\<rparr>) = clean_next_run s"
  "clean_task (s\<lparr>Schedule_cron := x\<rparr>) = clean_task s"
  by (simp_all add: clean_id_def clean_name_def clean_func_def clean_hook_def clean_args_def
        clean_kwargs_def clean_schedule_type_def clean_minutes_def clean_repeats_def
        clean_next_run_def clean_cron_def clean_task_def)

lemma clean_upd_minutes:
  "clean_id b (s\<lparr>Schedule_minutes := x\<rparr>) = clean_id b s"
  "clean_name (s\<lparr>Schedule_minutes := x\<rparr>) = clean_name s"
  "clean_func (s\<lparr>Schedule_minutes := x\<rparr>) = clean_func s"
  "clean_hook (s\<lparr>Schedule_minutes := x\<rparr>) = clean_hook s"
  "clean_args (s\<lparr>Schedule_minutes := x\<rparr>) = clean_args s"
  "clean_kwargs (s\<lparr>Schedule_minutes := x\<rparr>) = clean_kwargs s"
  "clean_schedule_type (s\<lparr>Schedule_minutes := x\<rparr>) = clean_schedule_type s"
  "clean_repeats b (s\<lparr>Schedule_minutes := x\<rparr>) = clean_repeats b s"
  "clean_next_run (s\<lparr>Schedule_minutes := x\<rparr>) = clean_next_run s"
  "clean_cron croniter (s\<lparr>Schedule_minutes := x\<rparr>) = clean_cron croniter s"
  "clean_task (s\<lparr>Schedule_minutes := x\<rparr>) = clean_task s"
  by (simp_all add: clean_id_def clean_name_def clean_func_def clean_hook_def clean_args_def
        clean_kwargs_def clean_schedule_type_def clean_minutes_def clean_repeats_def
        clean_next_run_def clean_cron_def clean_task_def)

lemma clean_upd_schedule_type:
  "clean_id b (s\<lparr>Schedule_schedule_type := x\<rparr>) = clean_id b s"
  "clean_name (s\<lparr>Schedule_schedule_type := x\<rparr>) = clean_name s"
  "clean_func (s\<lparr>Schedule_schedule_type := x\<rparr>) = clean_func s"
  "clean_hook (s\<lparr>Schedule_schedule_type := x\<rparr>) = clean_hook s"
  "clean_args (s\<lparr>Schedule_schedule_type := x\<rparr>) = clean_args s"
  "clean_kwargs (s\<lparr>Schedule_schedule_type := x\<rparr>) = clean_kwargs s"
  "clean_minutes b (s\<lparr>Schedule_schedule_type := x\<rparr>) = clean_minutes b s"
  "clean_repeats b (s\<lparr>Schedule_schedule_type := x\<rparr>) = clean_repeats b s"
  "clean_next_run (s\<lparr>Schedule_schedule_type := x\<rparr>) = clean_next_run s"
  "clean_cron croniter (s\<lparr>Schedule_schedule_type := x\<rparr>) = clean_cron croniter s"
  "clean_task (s\<lparr>Schedule_schedule_type := x\<rparr>) = clean_task s"
  by (simp_all add: clean_id_def clean_name_def clean_func_def clean_hook_def clean_args_def
        clean_kwargs_def clean_schedule_type_def clean_minutes_def clean_repeats_def
        clean_next_run_def clean_cron_def clean_task_def)

lemma clean_absent:
  "clean_cron croniter (s\<lparr>Schedule_cron := None\<rparr>) = Inr ()"
  "clean_cron croniter (s\<lparr>Schedule_cron := Some []\<rparr>) = Inr ()"
  "clean_minutes b (s\<lparr>Schedule_minutes := None\<rparr>) = Inr ()"
  by (simp_all add: clean_cron_def clean_minutes_def)

lemmas clean_defs =
  clean_fields_def clean_id_def clean_name_def clean_func_def clean_hook_def clean_args_def
  clean_kwargs_def clean_schedule_type_def clean_minutes_def clean_repeats_def
  clean_next_run_def clean_cron_def clean_task_def in_range_def max_length_def
  Schedule_TYPE_def ONCE_def MINUTES_def HOURLY_def DAILY_def WEEKLY_def MONTHLY_def
  QUARTERLY_def YEARLY_def CRON_def

text \<open>
  C7, as stated, does not hold, for three reasons. When the optional croniter package is
  not installed, \<^verbatim>\<open>validate_cron\<close> raises \<^verbatim>\<open>ImportError\<close> for every expression, also for
  the daily expression the specification itself gives as an example. The empty expression,
  which \<^verbatim>\<open>validate_cron\<close> rejects, is not passed to it by the validation of the fields: the
  cron field has \<^verbatim>\<open>blank=True\<close>, and the Schedule of the cron type that holds it is accepted.
  And \<^verbatim>\<open>save\<close> runs no validator: the Schedule with the malformed expression is written.
\<close>

theorem validate_cron_counterexample:
  "validate_cron (None :: (string \<Rightarrow> exn + unit) option) ''0 0 * * *'' = Inl ImportError \<and>
   validate_cron (Some toy_expand) [] = Inl ValidationError \<and>
   clean_fields (Some toy_expand) example_ranges (bare_schedule CRON None (Some [])) = Inr () \<and>
   validate_cron (Some toy_expand) ''every day'' = Inl ValidationError \<and>
   Schedule_save db_accepts 1 (bare_schedule CRON None (Some ''every day'')) [] =
     Inr [(bare_schedule CRON None (Some ''every day''))\<lparr>Schedule_id := Some 1\<rparr>]"
  by (simp add: clean_defs validate_cron_def toy_expand_def bare_schedule_def
        example_ranges_def Schedule_save_def db_accepts_def)

text \<open>
  C7, amended: with croniter installed, \<^verbatim>\<open>validate_cron(expr)\<close> raises
  \<^verbatim>\<open>ValidationError\<close> for every malformed expression, one on which \<^verbatim>\<open>croniter.expand\<close>
  raises \<^verbatim>\<open>ValueError\<close>, and raises nothing exactly for the expressions
  \<^verbatim>\<open>croniter.expand\<close> accepts; without croniter it raises \<^verbatim>\<open>ImportError\<close> for every
  expression. It runs when the fields of a Schedule are validated, on a cron value that is
  not empty: that validation rejects a Schedule whose non-empty cron expression is
  malformed, and treats an empty expression as an absent one. \<^verbatim>\<open>save\<close> runs no validator:
  it writes the Schedule, whatever its cron expression, when the database accepts the
  values.
\<close>

theorem validate_cron_cases:
  "validate_cron (None :: (string \<Rightarrow> exn + 'a) option) v = Inl ImportError \<and>
   ((expand :: string \<Rightarrow> exn + 'a) v = Inl ValueError
      \<longrightarrow> validate_cron (Some expand) v = Inl ValidationError) \<and>
   ((validate_cron (Some expand) v = Inr ()) = (\<exists>x. expand v = Inr x)) \<and>
   (expand v = Inl ValueError \<and> v \<noteq> [] \<longrightarrow>
      clean_fields (Some expand) ranges (s\<lparr>Schedule_cron := Some v\<rparr>) = Inl ValidationError) \<and>
   clean_fields (Some expand) ranges (s\<lparr>Schedule_cron := Some []\<rparr>) =
     clean_fields (Some expand) ranges (s\<lparr>Schedule_cron := None\<rparr>) \<and>
   (db_check (s\<lparr>Schedule_cron := Some v\<rparr>) = None \<longrightarrow>
      (\<exists>rows'. Schedule_save db_check new_id (s\<lparr>Schedule_cron := Some v\<rparr>) rows = Inr rows' \<and>
               (\<exists>r \<in> set rows'. Schedule_cron r = Some v)))"
proof (intro conjI impI)
  show "validate_cron (None :: (string \<Rightarrow> exn + 'a) option) v = Inl ImportError"
    by (simp add: validate_cron_def)
next
  assume "expand v = Inl ValueError"
  then show "validate_cron (Some expand) v = Inl ValidationError"
    by (simp add: validate_cron_def)
next
  show "(validate_cron (Some expand) v = Inr ()) = (\<exists>x. expand v = Inr x)"
    by (cases "expand v") (simp_all add: validate_cron_def)
next
  assume h: "expand v = Inl ValueError \<and> v \<noteq> []"
  then have "clean_cron (Some expand) (s\<lparr>Schedule_cron := Some v\<rparr>) = Inl ValidationError"
    by (simp add: clean_cron_def validate_cron_def)
  then show "clean_fields (Some expand) ranges (s\<lparr>Schedule_cron := Some v\<rparr>)
               = Inl ValidationError"
    by (rule clean_fields_cron_rejected)
next
  show "clean_fields (Some expand) ranges (s\<lparr>Schedule_cron := Some []\<rparr>) =
          clean_fields (Some expand) ranges (s\<lparr>Schedule_cron := None\<rparr>)"
    unfolding clean_fields_def by (simp only: clean_upd_cron clean_absent)
next
  assume "db_check (s\<lparr>Schedule_cron := Some v\<rparr>) = None"
  with Schedule_save_stores [of db_check "s\<lparr>Schedule_cron := Some v\<rparr>" new_id rows]
  obtain rows' where
    saved: "Schedule_save db_check new_id (s\<lparr>Schedule_cron := Some v\<rparr>) rows = Inr rows'"
    and mem: "(s\<lparr>Schedule_cron := Some v\<rparr>)
                \<lparr>Schedule_id := Some (case Schedule_id (s\<lparr>Schedule_cron := Some v\<rparr>) of
                                         None \<Rightarrow> new_id | Some i \<Rightarrow> i)\<rparr> \<in> set rows'"
    by blast
  from mem have "\<exists>r \<in> set rows'. Schedule_cron r = Some v"
    by (rule rev_bexI) simp
  with saved
  show "\<exists>rows'. Schedule_save db_check new_id (s\<lparr>Schedule_cron := Some v\<rparr>) rows = Inr rows' \<and>
                (\<exists>r \<in> set rows'. Schedule_cron r = Some v)"
    by blast
qed

theorem validate_cron_cases_witness:
  "validate_cron (Some toy_expand) ''every day'' = Inl ValidationError \<and>
   validate_cron (Some toy_expand) ''0 0 * * *'' = Inr () \<and>
   clean_fields (Some toy_expand) example_ranges (bare_schedule CRON None (Some ''every day''))
     = Inl ValidationError \<and>
   (\<exists>rows'. Schedule_save db_accepts 1 (bare_schedule CRON None (Some ''every day'')) []
              = Inr rows' \<and>
            (\<exists>r \<in> set rows'. Schedule_cron r = Some ''every day''))"
  using validate_cron_cases [of "''every day''" toy_expand example_ranges
          "bare_schedule CRON None None" db_accepts 1 "[]"]
        validate_cron_cases [of "''0 0 * * *''" toy_expand example_ranges
          "bare_schedule CRON None None" db_accepts 1 "[]"]
  by (simp add: toy_expand_def bare_schedule_def db_accepts_def)

text \<open>
  C8, as stated, does not hold: no rule ties the minutes and cron fields to the schedule
  type. The validation accepts a schedule of the every-N-minutes type without minutes, a
  schedule of the cron type without a cron expression, and a schedule of the once type
  with both.
\<close>

theorem clean_fields_accepts_counterexample:
  "clean_fields (Some toy_expand) example_ranges (bare_schedule MINUTES None None) = Inr () \<and>
   clean_fields (Some toy_expand) example_ranges (bare_schedule CRON None None) = Inr () \<and>
   clean_fields (Some toy_expand) example_ranges
     (bare_schedule ONCE (Some 5) (Some ''0 0 * * *'')) = Inr ()"
  by (simp add: clean_defs validate_cron_def toy_expand_def bare_schedule_def
        example_ranges_def)

text \<open>
  C8, amended: no rule ties the minutes or the cron field to the schedule type; both are
  optional for every type. The validation of a Schedule has the same outcome for each of
  the nine type codes, and a Schedule that passes it also passes without its minutes
  value, without its cron expression, and without both.
\<close>

theorem clean_fields_ignores_schedule_type:
  "(ty \<in> set Schedule_TYPE \<and> ty' \<in> set Schedule_TYPE \<longrightarrow>
      clean_fields croniter ranges (s\<lparr>Schedule_schedule_type := ty\<rparr>) =
      clean_fields croniter ranges (s\<lparr>Schedule_schedule_type := ty'\<rparr>)) \<and>
   (clean_fields croniter ranges s = Inr () \<longrightarrow>
      clean_fields croniter ranges (s\<lparr>Schedule_minutes := None\<rparr>) = Inr () \<and>
      clean_fields croniter ranges (s\<lparr>Schedule_cron := None\<rparr>) = Inr () \<and>
      clean_fields croniter ranges (s\<lparr>Schedule_minutes := None, Schedule_cron := None\<rparr>) = Inr ())"
proof (intro conjI impI)
  assume "ty \<in> set Schedule_TYPE \<and> ty' \<in> set Schedule_TYPE"
  then have "clean_schedule_type (s\<lparr>Schedule_schedule_type := ty\<rparr>) = Inr ()"
    and "clean_schedule_type (s\<lparr>Schedule_schedule_type := ty'\<rparr>) = Inr ()"
    by (simp_all add: clean_schedule_type_ok)
  then show "clean_fields croniter ranges (s\<lparr>Schedule_schedule_type := ty\<rparr>) =
             clean_fields croniter ranges (s\<lparr>Schedule_schedule_type := ty'\<rparr>)"
    unfolding clean_fields_def by (simp only: clean_upd_schedule_type)
next
  assume ok: "clean_fields croniter ranges s = Inr ()"
  then show "clean_fields croniter ranges (s\<lparr>Schedule_minutes := None\<rparr>) = Inr ()"
    unfolding clean_fields_ok by (simp add: clean_upd_minutes clean_upd_cron clean_absent)
  from ok show "clean_fields croniter ranges (s\<lparr>Schedule_cron := None\<rparr>) = Inr ()"
    unfolding clean_fields_ok by (simp add: clean_upd_minutes clean_upd_cron clean_absent)
  from ok show "clean_fields croniter ranges
                  (s\<lparr>Schedule_minutes := None, Schedule_cron := None\<rparr>) = Inr ()"
    unfolding clean_fields_ok by (simp add: clean_upd_minutes clean_upd_cron clean_absent)
qed

theorem clean_fields_ignores_schedule_type_witness:
  "clean_fields (Some toy_expand) example_ranges
     (bare_schedule MINUTES (Some 5) (Some ''0 0 * * *'')) =
   clean_fields (Some toy_expand) example_ranges
     (bare_schedule CRON (Some 5) (Some ''0 0 * * *'')) \<and>
   clean_fields (Some toy_expand) example_ranges (bare_schedule MINUTES None None) = Inr ()"
  using clean_fields_ignores_schedule_type
          [of MINUTES CRON "Some toy_expand" example_ranges
              "bare_schedule MINUTES (Some 5) (Some ''0 0 * * *'')"]
  by (simp add: clean_defs validate_cron_def toy_expand_def bare_schedule_def
        example_ranges_def)

end
